theory Spec2Isabelle
  imports Main "HOL-Library.Sublist" "HOL-Library.AList"
begin

section \<open>Syntax trees of the source language\<close>

text \<open>
  The translator works on the syntax trees of the Go parser (package \<^verbatim>\<open>go/ast\<close>).
  A type expression is one of the node kinds that \<^verbatim>\<open>writeType\<close> switches on; every
  other kind (function types, channel types, single-index generic instantiations, ...)
  is \<open>OtherExpr\<close> and carries the name of its kind.  In a type position the parser
  builds a qualified name \<^verbatim>\<open>X.Sel\<close> from two identifiers, so \<open>SelectorExpr\<close> carries two
  names.  The length of an array type and the members of an interface or of a generic
  instantiation are never inspected by the translator and are left out.

  A field (\<^verbatim>\<open>ast.Field\<close>) has its list of names (each a possibly nil identifier), its
  type and its optional tag; the tag is the string literal as written in the source,
  including its quote characters.
\<close>

datatype expr =
    Ident string
  | StarExpr expr
  | ArrayType expr
  | StructType "field list"
  | SelectorExpr string string
  | MapType expr expr
  | InterfaceType
  | IndexListExpr
  | OtherExpr string
and field =
    Field (Names: "string option list") (Type: expr) (Tag: "string option")

text \<open>
  A node of a parsed unit as \<^verbatim>\<open>ast.Inspect\<close> meets it: one of the five kinds the
  translator has a case for, or any other node with its children in the order
  \<^verbatim>\<open>ast.Walk\<close> visits them.  An import has its optional local name and its path literal
  (with the quotes); a comment has its text; an array type met outside a type
  declaration has its element type; a type declaration has its name and its type.
\<close>

datatype node =
    ImportSpec "string option" string
  | IdentNode string
  | Comment string
  | ArrayTypeNode expr
  | TypeSpec string expr
  | OtherNode "node list"

text \<open>
  Modelled from the spec: \<^verbatim>\<open>logging.Bubble\<close>, a function of another package.  Section 7
  of the spec has every error wrapped with a short context string as it crosses a
  component boundary and handed to the caller; both entry points call
  \<^verbatim>\<open>logging.Bubble(nil, ...)\<close> to report the unset root namespace.  So
  \<^verbatim>\<open>logging.Bubble(err, msg)\<close> is an error value that holds its cause, nil or not, and
  its message.

  \<open>Unhandled\<close> is the error \<^verbatim>\<open>writeType\<close> creates for a node kind it has no case for;
  \<open>LibError\<close> is an error value handed back by a library (parser, tag parser,
  operating system).
\<close>

datatype error =
    LibError string
  | Unhandled expr
  | Bubble "error option" string

text \<open>
  A call either returns (with Go's \<^verbatim>\<open>error\<close> result, nil or not) or panics.
\<close>

datatype ret = Return "error option" | Panic

text \<open>An entry point returns its pair of a text and an error, or panics.\<close>

datatype outcome = Returns string "error option" | Panics

text \<open>One parsed key of a struct tag, as \<^verbatim>\<open>structtag.Tag\<close>.\<close>

record tag =
  Key :: string
  Name :: string
  Options :: "string list"

text \<open>
  The environment: the process-wide root namespace \<^verbatim>\<open>rootDirName\<close> and the library
  functions the translator calls and whose code is not part of the repository.
  \<^item> \<open>structtag_Parse\<close> is \<^verbatim>\<open>structtag.Parse\<close>: an error, or a possibly nil
    \<^verbatim>\<open>*Tags\<close>;
  \<^item> \<open>unicode_L\<close> and \<open>unicode_N\<close> are the Unicode classes \<^verbatim>\<open>\pL\<close> and \<^verbatim>\<open>\pN\<close> of the
    regular expression library on code points from 128 on;
  \<^item> \<open>fmt_expr\<close> is what \<^verbatim>\<open>fmt\<close> prints for a node that is not an identifier;
  \<^item> \<open>TrimFunc_IsSpace\<close> and \<open>TrimRightFunc_IsSpace\<close> are \<^verbatim>\<open>strings.TrimFunc\<close> and
    \<^verbatim>\<open>strings.TrimRightFunc\<close> with \<^verbatim>\<open>unicode.IsSpace\<close>, which \<^verbatim>\<open>strings.TrimSpace\<close> falls back
    to at a byte outside ASCII;
  \<^item> \<open>parser_ParseExprFrom\<close> and \<open>parser_ParseFile\<close> are the two entry points of the Go
    parser, from the source text to the syntax tree, the second with its mode;
  \<^item> \<open>printer_Fprint\<close> is the source text \<^verbatim>\<open>printer.Fprint\<close> prints for a node;
  \<^item> \<open>os_Stat\<close> (an error, or whether the path is a directory), \<open>os_IsNotExist\<close>,
    \<open>os_ReadDir\<close> (the names of the entries), \<open>os_ReadFile\<close> and \<open>filepath_Join\<close> are
    the file system;
  \<^item> \<open>mapRange\<close> is the order in which a \<^verbatim>\<open>range\<close> over a map hands out the keys, given
    the keys of the map.
\<close>

datatype mode = ParseComments | SpuriousErrors

record env =
  rootDirName :: string
  structtag_Parse :: "string \<Rightarrow> error + tag list option"
  unicode_L :: "nat \<Rightarrow> bool"
  unicode_N :: "nat \<Rightarrow> bool"
  fmt_expr :: "expr \<Rightarrow> string"
  TrimFunc_IsSpace :: "string \<Rightarrow> string"
  TrimRightFunc_IsSpace :: "string \<Rightarrow> string"
  parser_ParseExprFrom :: "string \<Rightarrow> error + node"
  parser_ParseFile :: "mode \<Rightarrow> string \<Rightarrow> error + node"
  printer_Fprint :: "node \<Rightarrow> string"
  os_Stat :: "string \<Rightarrow> error + bool"
  os_IsNotExist :: "error \<Rightarrow> bool"
  os_ReadDir :: "string \<Rightarrow> error + string list"
  os_ReadFile :: "string \<Rightarrow> error + string"
  filepath_Join :: "string \<Rightarrow> string \<Rightarrow> string"
  mapRange :: "string list \<Rightarrow> string list"

section \<open>The type compiler\<close>

definition tsIndent :: string where
  "tsIndent = ''  ''"

definition tsTypePrefix :: string where
  "tsTypePrefix = ''export''"

definition convertType :: "string \<Rightarrow> string" where
  "convertType s =
     (if s = ''bool'' then ''boolean''
      else if s \<in> set [''int'', ''int8'', ''int16'', ''int32'', ''int64'',
                        ''uint'', ''uint8'', ''uint16'', ''uint32'', ''uint64'',
                        ''float32'', ''float64'',
                        ''complex64'', ''complex128''] then ''number''
      else s)"

text \<open>
  The loop \<^verbatim>\<open>for i := 0; i < n; i++ { builder.WriteString(tsIndent) }\<close>: nothing is
  written when \<open>n \<le> 0\<close>.
\<close>

definition indent :: "int \<Rightarrow> string" where
  "indent n = concat (replicate (nat n) tsIndent)"

subsection \<open>Valid names\<close>

text \<open>
  \<^verbatim>\<open>utf8.DecodeRuneInString\<close>, as the regular expression matcher reads its input: the
  code point at the head of a byte string and the number of bytes it takes after the
  first one.  A byte that starts no well-formed encoding is the replacement character
  \<open>0xFFFD\<close> (65533) and takes one byte.
\<close>

definition cont :: "nat \<Rightarrow> nat \<Rightarrow> nat \<Rightarrow> bool" where
  "cont lo hi b = (lo \<le> b \<and> b \<le> hi)"

definition decodeRune :: "nat \<Rightarrow> nat list \<Rightarrow> nat \<times> nat" where
  "decodeRune b0 bs =
     (if b0 < 128 then (b0, 0)
      else if 194 \<le> b0 \<and> b0 \<le> 223 then
        (case bs of
           b1 # _ \<Rightarrow>
             if cont 128 191 b1 then ((b0 mod 32) * 64 + b1 mod 64, 1) else (65533, 0)
         | _ \<Rightarrow> (65533, 0))
      else if 224 \<le> b0 \<and> b0 \<le> 239 then
        (case bs of
           b1 # b2 # _ \<Rightarrow>
             if cont (if b0 = 224 then 160 else 128) (if b0 = 237 then 159 else 191) b1
                \<and> cont 128 191 b2
             then ((b0 mod 16) * 4096 + (b1 mod 64) * 64 + b2 mod 64, 2)
             else (65533, 0)
         | _ \<Rightarrow> (65533, 0))
      else if 240 \<le> b0 \<and> b0 \<le> 244 then
        (case bs of
           b1 # b2 # b3 # _ \<Rightarrow>
             if cont (if b0 = 240 then 144 else 128) (if b0 = 244 then 143 else 191) b1
                \<and> cont 128 191 b2 \<and> cont 128 191 b3
             then ((b0 mod 8) * 262144 + (b1 mod 64) * 4096 + (b2 mod 64) * 64 + b3 mod 64, 3)
             else (65533, 0)
         | _ \<Rightarrow> (65533, 0))
      else (65533, 0))"

fun decodeRunes :: "nat list \<Rightarrow> nat list" where
  "decodeRunes [] = []"
| "decodeRunes (b # bs) = (case decodeRune b bs of (r, k) \<Rightarrow> r # decodeRunes (drop k bs))"

text \<open>The classes \<^verbatim>\<open>\pL\<close> and \<^verbatim>\<open>\pN\<close>: on ASCII the letters and the digits.\<close>

definition pL :: "env \<Rightarrow> nat \<Rightarrow> bool" where
  "pL e r = (if r < 128 then (65 \<le> r \<and> r \<le> 90) \<or> (97 \<le> r \<and> r \<le> 122) else unicode_L e r)"

definition pN :: "env \<Rightarrow> nat \<Rightarrow> bool" where
  "pN e r = (if r < 128 then 48 \<le> r \<and> r \<le> 57 else unicode_N e r)"

text \<open>The lines of a text: the pieces between its newline bytes.\<close>

fun splitLines :: "string \<Rightarrow> string list" where
  "splitLines [] = [[]]"
| "splitLines (c # cs) =
     (if c = CHR 0x0A then [] # splitLines cs
      else (case splitLines cs of l # ls \<Rightarrow> (c # l) # ls | [] \<Rightarrow> [[c]]))"

text \<open>
  One line matches \<^verbatim>\<open>[\pL_][\pL\pN_]*\<close> from its start to its end.
\<close>

definition matchLine :: "env \<Rightarrow> string \<Rightarrow> bool" where
  "matchLine e l =
     (case decodeRunes (map of_char l) of
        [] \<Rightarrow> False
      | r # rs \<Rightarrow> (pL e r \<or> r = 95) \<and> list_all (\<lambda>x. pL e x \<or> pN e x \<or> x = 95) rs)"

text \<open>
  \<^verbatim>\<open>validJSNameRegexp.MatchString(n)\<close> for the pattern \<^verbatim>\<open>(?m)^[\pL_][\pL\pN_]*$\<close>: in
  multi-line mode \<^verbatim>\<open>^\<close> and \<^verbatim>\<open>$\<close> match at the start and the end of every line, and the
  classes contain no newline, so the pattern matches when some line of \<open>n\<close> matches as
  a whole.
\<close>

definition validJSName :: "env \<Rightarrow> string \<Rightarrow> bool" where
  "validJSName e n = list_ex (matchLine e) (splitLines n)"

subsection \<open>Field rules\<close>

text \<open>
  The pieces of the loop body of \<^verbatim>\<open>writeFields\<close> that do not recurse.  The name of a
  field is the name of its first identifier, or empty.
\<close>

definition fieldNameOf :: "field \<Rightarrow> string" where
  "fieldNameOf f = (case Names f of Some n # _ \<Rightarrow> n | _ \<Rightarrow> [])"

text \<open>
  The test \<^verbatim>\<open>len(fieldName) == 0 || 'A' > fieldName[0] || fieldName[0] > 'Z'\<close> on the
  first byte of the name.
\<close>

definition unexported :: "string \<Rightarrow> bool" where
  "unexported n =
     (case n of
        [] \<Rightarrow> True
      | c # _ \<Rightarrow> (of_char (CHR ''A'') :: nat) > of_char c \<or> (of_char c :: nat) > of_char (CHR ''Z''))"

text \<open>\<^verbatim>\<open>Tags.Get\<close>: the first tag with the key; \<^verbatim>\<open>Tag.HasOption\<close>.\<close>

definition tags_Get :: "tag list \<Rightarrow> string \<Rightarrow> tag option" where
  "tags_Get ts k = find (\<lambda>t. Key t = k) ts"

definition HasOption :: "tag \<Rightarrow> string \<Rightarrow> bool" where
  "HasOption t opt = (opt \<in> set (Options t))"

text \<open>
  What the tag of a field decides: a panic (the slice \<^verbatim>\<open>Value[1 : len-1]\<close> of a literal
  shorter than two bytes, or \<^verbatim>\<open>Get\<close> on a nil \<^verbatim>\<open>*Tags\<close>), the error returned for a tag
  that does not parse, the field skipped for the name \<^verbatim>\<open>-\<close>, or the name from the tag
  (empty when there is none) and the optional flag.
\<close>

datatype taginfo = TagPanic | TagError error | TagSkip | TagName string bool

definition readTag :: "env \<Rightarrow> field \<Rightarrow> taginfo" where
  "readTag e f =
     (case Tag f of
        None \<Rightarrow> TagName [] False
      | Some v \<Rightarrow>
          if length v < 2 then TagPanic
          else
            (case structtag_Parse e (take (length v - 2) (drop 1 v)) of
               Inl err \<Rightarrow> TagError (Bubble (Some err) ''could not parse struct tag'')
             | Inr None \<Rightarrow> TagPanic
             | Inr (Some tags) \<Rightarrow>
                 (case tags_Get tags ''json'' of
                    None \<Rightarrow> TagName [] False
                  | Some jsonTag \<Rightarrow>
                      if Name jsonTag = ''-'' then TagSkip
                      else TagName (Name jsonTag) (HasOption jsonTag ''omitempty''))))"

definition quoteName :: "env \<Rightarrow> string \<Rightarrow> string" where
  "quoteName e name =
     (if \<not> validJSName e name then [CHR 0x27] @ name @ [CHR 0x27] else name)"

text \<open>The type switch on \<^verbatim>\<open>f.Type\<close>: a pointer is unwrapped and forces the field optional.\<close>

definition unwrapStar :: "expr \<Rightarrow> bool \<Rightarrow> expr \<times> bool" where
  "unwrapStar t optional = (case t of StarExpr x \<Rightarrow> (x, True) | _ \<Rightarrow> (t, optional))"

subsection \<open>writeType and writeFields\<close>

text \<open>
  \<^verbatim>\<open>writeType\<close> and \<^verbatim>\<open>writeFields\<close> only append to the builder, so the model returns the
  text they append.  The assignment \<^verbatim>\<open>f.Type = t.X\<close> in \<^verbatim>\<open>writeFields\<close> changes the tree,
  so the model also returns the tree as the call leaves it.  The third component is how
  the call ends.  \<^verbatim>\<open>writeType\<close> drops the error of \<^verbatim>\<open>writeFields\<close>, and \<^verbatim>\<open>writeFields\<close>
  drops the error of \<^verbatim>\<open>writeType\<close>; a panic is never dropped.  The depth is an \<^verbatim>\<open>int\<close>
  that starts at \<open>-1\<close> and grows by one per nested struct; it is modelled unbounded.

  \<open>writeField\<close> is the body of the loop of \<^verbatim>\<open>writeFields\<close> for one field: the loop goes on
  to the next field (after a \<^verbatim>\<open>continue\<close> or at the end of the body), or the function is
  left.
\<close>

datatype flow = Continue | Exit ret

lemma size_unwrapStar: "(ty, opt') = unwrapStar (Type f) optional \<Longrightarrow> size ty < size f"
  by (cases f) (auto simp: unwrapStar_def split: expr.splits)

function (sequential)
  writeType :: "env \<Rightarrow> expr \<Rightarrow> int \<Rightarrow> bool \<Rightarrow> string \<times> expr \<times> ret"
  and writeField :: "env \<Rightarrow> field \<Rightarrow> int \<Rightarrow> string \<times> field \<times> flow"
  and writeFields :: "env \<Rightarrow> field list \<Rightarrow> int \<Rightarrow> string \<times> field list \<times> ret" where
  "writeType e (StarExpr x) depth optionalParens =
     (case writeType e x depth False of
        (s, x', Panic) \<Rightarrow> ((if optionalParens then ''('' else []) @ s, StarExpr x', Panic)
      | (s, x', Return (Some err)) \<Rightarrow>
          ((if optionalParens then ''('' else []) @ s, StarExpr x',
           Return (Some (Bubble (Some err) ''writeType StarExpr'')))
      | (s, x', Return None) \<Rightarrow>
          ((if optionalParens then ''('' else []) @ s @ '' | undefined''
             @ (if optionalParens then '')'' else []),
           StarExpr x', Return None))"
| "writeType e (ArrayType elt) depth optionalParens =
     (if elt = Ident ''byte'' then (''string'', ArrayType elt, Return None)
      else
        (case writeType e elt depth True of
           (s, elt', Panic) \<Rightarrow> (s, ArrayType elt', Panic)
         | (s, elt', Return (Some err)) \<Rightarrow>
             (s, ArrayType elt', Return (Some (Bubble (Some err) ''writeType ArrayType'')))
         | (s, elt', Return None) \<Rightarrow> (s @ ''[]'', ArrayType elt', Return None)))"
| "writeType e (StructType fs) depth optionalParens =
     (case writeFields e fs (depth + 1) of
        (s, fs', Panic) \<Rightarrow> (''{'' @ [CHR 0x0A] @ s, StructType fs', Panic)
      | (s, fs', Return _) \<Rightarrow>
          (''{'' @ [CHR 0x0A] @ s @ indent (depth + 1) @ ''}'' @ '';'',
           StructType fs', Return None))"
| "writeType e (Ident n) depth optionalParens = (convertType n, Ident n, Return None)"
| "writeType e (SelectorExpr x sel) depth optionalParens =
     (let longType = x @ ''.'' @ sel in
      (if longType = ''time.Time'' then ''string''
       else if longType = ''time.Duration'' then ''number''
       else if longType = ''decimal.Decimal'' then ''number''
       else if longType = ''pgtype.Timestamptz'' then ''string''
       else longType,
       SelectorExpr x sel, Return None))"
| "writeType e (MapType k v) depth optionalParens =
     (case writeType e k depth False of
        (s1, k', Panic) \<Rightarrow> (''{ [key: '' @ s1, MapType k' v, Panic)
      | (s1, k', Return (Some err)) \<Rightarrow>
          (''{ [key: '' @ s1, MapType k' v,
           Return (Some (Bubble (Some err) ''writeType MapType Key'')))
      | (s1, k', Return None) \<Rightarrow>
          (case writeType e v depth False of
             (s2, v', Panic) \<Rightarrow> (''{ [key: '' @ s1 @ '']: '' @ s2, MapType k' v', Panic)
           | (s2, v', Return (Some err)) \<Rightarrow>
               (''{ [key: '' @ s1 @ '']: '' @ s2, MapType k' v',
                Return (Some (Bubble (Some err) ''writeType MapType Value'')))
           | (s2, v', Return None) \<Rightarrow>
               (''{ [key: '' @ s1 @ '']: '' @ s2 @ ''}'', MapType k' v', Return None)))"
| "writeType e InterfaceType depth optionalParens = (''any'', InterfaceType, Return None)"
| "writeType e IndexListExpr depth optionalParens = (''any'', IndexListExpr, Return None)"
| "writeType e (OtherExpr kind) depth optionalParens =
     ([], OtherExpr kind,
      Return (Some (Bubble (Some (Unhandled (OtherExpr kind))) ''writeType'')))"
| "writeField e f depth =
     (let fieldName = fieldNameOf f in
      if unexported fieldName then ([], f, Continue)
      else
        (case readTag e f of
           TagPanic \<Rightarrow> ([], f, Exit Panic)
         | TagError err \<Rightarrow> ([], f, Exit (Return (Some err)))
         | TagSkip \<Rightarrow> ([], f, Continue)
         | TagName tagName omitempty \<Rightarrow>
             (let name = (if length tagName = 0 then fieldName else tagName);
                  head = indent (depth + 1) @ quoteName e name;
                  (ty, optional) = unwrapStar (Type f) omitempty;
                  head = head @ (if optional then ''?'' else []) @ '': ''
              in
                (case writeType e ty depth False of
                   (s, ty', Panic) \<Rightarrow> (head @ s, Field (Names f) ty' (Tag f), Exit Panic)
                 | (s, ty', Return _) \<Rightarrow>
                     (head @ s @ '';'' @ [CHR 0x0A], Field (Names f) ty' (Tag f), Continue)))))"
| "writeFields e [] depth = ([], [], Return None)"
| "writeFields e (f # fs) depth =
     (case writeField e f depth of
        (s, f', Exit r) \<Rightarrow> (s, f' # fs, r)
      | (s, f', Continue) \<Rightarrow>
          (case writeFields e fs depth of (s2, fs', r) \<Rightarrow> (s @ s2, f' # fs', r)))"
  by pat_completeness auto

termination
  by (relation "measure (\<lambda>a. case a of
                           Inl (e, t, depth, p) \<Rightarrow> size t
                         | Inr (Inl (e, f, depth)) \<Rightarrow> size f
                         | Inr (Inr (e, fs, depth)) \<Rightarrow> size_list size fs)")
     (auto dest: size_unwrapStar)

section \<open>The declaration translator\<close>

subsection \<open>String functions of the standard library\<close>

text \<open>\<^verbatim>\<open>strings.Trim(s, `"`)\<close>: the double quotes at both ends are removed.\<close>

definition trimQuotes :: "string \<Rightarrow> string" where
  "trimQuotes s =
     rev (dropWhile (\<lambda>c. c = CHR 0x22) (rev (dropWhile (\<lambda>c. c = CHR 0x22) s)))"

text \<open>
  \<^verbatim>\<open>strings.Replace(s, old, new, 1)\<close>: the first occurrence of \<open>old\<close> in \<open>s\<close>, wherever it
  is, is replaced; an empty \<open>old\<close> matches at the start.
\<close>

fun replaceFirst :: "string \<Rightarrow> string \<Rightarrow> string \<Rightarrow> string" where
  "replaceFirst old new [] = (if old = [] then new else [])"
| "replaceFirst old new (c # cs) =
     (if prefix old (c # cs) then new @ drop (length old) (c # cs)
      else c # replaceFirst old new cs)"

text \<open>
  \<^verbatim>\<open>filepath.Base\<close> with the separator \<^verbatim>\<open>/\<close>: the last element of the path, after the
  trailing separators are removed.
\<close>

definition filepath_Base :: "string \<Rightarrow> string" where
  "filepath_Base path =
     (if path = [] then ''.''
      else
        (let p = rev (dropWhile (\<lambda>c. c = CHR ''/'') (rev path));
             l = rev (takeWhile (\<lambda>c. c \<noteq> CHR ''/'') (rev p))
         in if l = [] then ''/'' else l))"

text \<open>
  \<^verbatim>\<open>strings.TrimSpace\<close>: the ASCII white space at both ends is removed; at the first byte
  outside ASCII, from either end, the rest is handed to the Unicode-aware functions.
\<close>

definition asciiSpace :: "char \<Rightarrow> bool" where
  "asciiSpace c = ((of_char c :: nat) \<in> {9, 10, 11, 12, 13, 32})"

definition TrimSpace :: "env \<Rightarrow> string \<Rightarrow> string" where
  "TrimSpace e s =
     (case dropWhile asciiSpace s of
        [] \<Rightarrow> []
      | c # cs \<Rightarrow>
          if (of_char c :: nat) \<ge> 128 then TrimFunc_IsSpace e (c # cs)
          else
            (case dropWhile asciiSpace (rev (c # cs)) of
               [] \<Rightarrow> []
             | d # ds \<Rightarrow>
                 if (of_char d :: nat) \<ge> 128 then TrimRightFunc_IsSpace e (rev (d # ds))
                 else rev (d # ds)))"

subsection \<open>The walk over the parsed unit\<close>

text \<open>The variables the callback of \<^verbatim>\<open>ast.Inspect\<close> captures.\<close>

record walk =
  ts :: string
  name :: string
  first :: bool
  lastWasComment :: bool
  builderErr :: "error option"

text \<open>What \<^verbatim>\<open>fmt.Sprintf("%s", x.Elt)\<close> prints: an identifier prints its name.\<close>

definition exprString :: "env \<Rightarrow> expr \<Rightarrow> string" where
  "exprString e x = (case x of Ident n \<Rightarrow> n | _ \<Rightarrow> fmt_expr e x)"

definition importName :: "string option \<Rightarrow> string \<Rightarrow> string" where
  "importName nm path =
     (case nm of Some n \<Rightarrow> trimQuotes n | None \<Rightarrow> filepath_Base (trimQuotes path))"

definition importLine :: "string \<Rightarrow> string \<Rightarrow> string" where
  "importLine alias importPath =
     ''import * as '' @ alias @ '' from '' @ [CHR 0x22] @ importPath @ ''/types.go.ts''
       @ [CHR 0x22] @ '';'' @ [CHR 0x0A]"

text \<open>
  The callback: the state after the node, and the value the callback returns (whether
  the walk goes on into the children of the node); \<open>None\<close> is a panic.
\<close>

fun visit :: "env \<Rightarrow> walk \<Rightarrow> node \<Rightarrow> (walk \<times> bool) option" where
  "visit e w (ImportSpec nm path) =
     (let importPath = replaceFirst (rootDirName e) ''@'' (trimQuotes path) in
      Some (w\<lparr>ts := ts w @ importLine (importName nm path) importPath\<rparr>, False))"
| "visit e w (IdentNode n) = Some (w\<lparr>name := n\<rparr>, True)"
| "visit e w (Comment text) =
     Some (w\<lparr>ts := ts w @ (if \<not> first w then [CHR 0x0A, CHR 0x0A] else []) @ text @ [CHR 0x0A],
              lastWasComment := True\<rparr>, False)"
| "visit e w (ArrayTypeNode elt) =
     Some (w\<lparr>ts := ts w @ (if \<not> first w then [CHR 0x0A, CHR 0x0A] else [])
                   @ tsTypePrefix @ '' type '' @ name w @ '' extends Array<''
                   @ exprString e elt @ ''>{}''\<rparr>, False)"
| "visit e w (TypeSpec n t) =
     (if t = InterfaceType then
        Some (w\<lparr>ts := ts w @ tsTypePrefix @ '' interface '' @ n @ '' {'' @ [CHR 0x0A]
                      @ ''}'' @ [CHR 0x0A]\<rparr>, False)
      else
        (let head = (if \<not> first w \<and> \<not> lastWasComment w then [CHR 0x0A, CHR 0x0A] else [])
                      @ tsTypePrefix @ '' type '' @ n @ '' = ''
         in
           (case writeType e t (-1) False of
              (s, t', Panic) \<Rightarrow> None
            | (s, t', Return (Some err)) \<Rightarrow>
                Some (w\<lparr>ts := ts w @ head @ s, builderErr := Some err\<rparr>, False)
            | (s, t', Return None) \<Rightarrow>
                Some (w\<lparr>ts := ts w @ head @ s, first := False\<rparr>, False))))"
| "visit e w (OtherNode cs) = Some (w, True)"

text \<open>
  \<^verbatim>\<open>ast.Inspect\<close>: the callback on the node, then, where it returned true, the walk over
  the children one after the other.
\<close>

fun Inspect :: "env \<Rightarrow> walk \<Rightarrow> node \<Rightarrow> walk option"
  and InspectList :: "env \<Rightarrow> walk \<Rightarrow> node list \<Rightarrow> walk option" where
  "Inspect e w (OtherNode cs) =
     (case visit e w (OtherNode cs) of
        None \<Rightarrow> None
      | Some (w', descend) \<Rightarrow> if descend then InspectList e w' cs else Some w')"
| "Inspect e w n = (case visit e w n of None \<Rightarrow> None | Some (w', descend) \<Rightarrow> Some w')"
| "InspectList e w [] = Some w"
| "InspectList e w (n # ns) =
     (case Inspect e w n of None \<Rightarrow> None | Some w' \<Rightarrow> InspectList e w' ns)"

subsection \<open>Convert\<close>

definition wrapper :: "string \<Rightarrow> string" where
  "wrapper s =
     ''package main'' @ [CHR 0x0A, CHR 0x0A] @ ''func main() {'' @ [CHR 0x0A, CHR 0x09] @ s
       @ [CHR 0x0A] @ ''}''"

text \<open>The three parsing strategies, one after the other; the last error is kept.\<close>

definition parseSource :: "env \<Rightarrow> string \<Rightarrow> error + node" where
  "parseSource e goStructs =
     (case parser_ParseExprFrom e goStructs of
        Inr parsed \<Rightarrow> Inr parsed
      | Inl _ \<Rightarrow>
          (case parser_ParseFile e ParseComments goStructs of
             Inr parsed \<Rightarrow> Inr parsed
           | Inl _ \<Rightarrow> parser_ParseFile e ParseComments (wrapper goStructs)))"

definition initWalk :: walk where
  "initWalk = \<lparr>ts = [], name = [], first = True, lastWasComment = False, builderErr = None\<rparr>"

definition Convert :: "env \<Rightarrow> string \<Rightarrow> outcome" where
  "Convert e goStructs =
     (if rootDirName e = [] then Returns [] (Some (Bubble None ''RootDirName is empty''))
      else
        (let goStructs = TrimSpace e goStructs in
         if length goStructs = 0 then Returns goStructs None
         else
           (case parseSource e goStructs of
              Inl err \<Rightarrow> Returns [] (Some (Bubble (Some err) ''could not parse Go code''))
            | Inr parsed \<Rightarrow>
                (case Inspect e initWalk parsed of
                   None \<Rightarrow> Panics
                 | Some w \<Rightarrow>
                     (case builderErr w of
                        Some err \<Rightarrow> Returns [] (Some (Bubble (Some err) ''could not write type''))
                      | None \<Rightarrow> Returns (ts w) None)))))"

section \<open>The package aggregator\<close>

text \<open>
  \<^verbatim>\<open>filepath.Ext\<close>: the suffix of the last element of the path from its last dot on, or
  empty.
\<close>

fun extFrom :: "string \<Rightarrow> string \<Rightarrow> string" where
  "extFrom acc [] = []"
| "extFrom acc (c # cs) =
     (if c = CHR ''/'' then []
      else if c = CHR ''.'' then c # acc
      else extFrom (c # acc) cs)"

definition filepath_Ext :: "string \<Rightarrow> string" where
  "filepath_Ext path = extFrom [] (rev path)"

text \<open>
  A Go map from strings to strings is an association list with distinct keys;
  \<^verbatim>\<open>m[k] = v\<close> is \<open>AList.update k v m\<close> and a lookup is \<open>map_of m k\<close>.  The two
  registries of imports and the buffer of declarations are the state of the
  aggregation.
\<close>

type_synonym registry = "(string \<times> string) list"

type_synonym aggregation = "string \<times> registry \<times> registry"

text \<open>
  \<^verbatim>\<open>addNode\<close>: the comment that links to the file, then \<^verbatim>\<open>type\<close> and the printed
  declaration.
\<close>

definition addNode :: "env \<Rightarrow> string \<Rightarrow> node \<Rightarrow> string \<Rightarrow> string" where
  "addNode e filePath n convertBuf =
     convertBuf @ ''/**'' @ [CHR 0x0A] @ '' * [file://./'' @ filePath @ '']('' @ filePath @ '')''
       @ [CHR 0x0A] @ '' */'' @ [CHR 0x0A]
       @ ''type '' @ printer_Fprint e n @ [CHR 0x0A, CHR 0x0A]"

text \<open>The loop over the fields of a struct that records the qualified field types.\<close>

fun useFields :: "field list \<Rightarrow> registry \<Rightarrow> registry" where
  "useFields [] used = used"
| "useFields (f # fs) used =
     (case Type f of
        SelectorExpr x sel \<Rightarrow> useFields fs (AList.update x sel used)
      | _ \<Rightarrow> useFields fs used)"

text \<open>
  \<^verbatim>\<open>findStructs\<close>: the walk over one file.  Its callback returns false on an import and on
  a type declaration and true on every other node.
\<close>

fun findStructs :: "env \<Rightarrow> string \<Rightarrow> aggregation \<Rightarrow> node \<Rightarrow> aggregation"
  and findStructsList :: "env \<Rightarrow> string \<Rightarrow> aggregation \<Rightarrow> node list \<Rightarrow> aggregation" where
  "findStructs e filePath (convertBuf, imps, used) (ImportSpec nm path) =
     (convertBuf, AList.update (importName nm path) (trimQuotes path) imps, used)"
| "findStructs e filePath (convertBuf, imps, used) (TypeSpec n t) =
     (addNode e filePath (TypeSpec n t) convertBuf, imps,
      (case t of
         SelectorExpr x sel \<Rightarrow> AList.update x sel used
       | StructType fs \<Rightarrow> useFields fs used
       | _ \<Rightarrow> used))"
| "findStructs e filePath a (OtherNode cs) = findStructsList e filePath a cs"
| "findStructs e filePath a n = a"
| "findStructsList e filePath a [] = a"
| "findStructsList e filePath a (n # ns) =
     findStructsList e filePath (findStructs e filePath a n) ns"

definition parseFile :: "env \<Rightarrow> string \<Rightarrow> error + node" where
  "parseFile e fullPath =
     (case os_ReadFile e fullPath of
        Inl err \<Rightarrow> Inl (Bubble (Some err) ''could not read file'')
      | Inr source \<Rightarrow>
          (case parser_ParseFile e SpuriousErrors source of
             Inl err \<Rightarrow> Inl (Bubble (Some err) ''could not parse Go code'')
           | Inr astFile \<Rightarrow> Inr astFile))"

text \<open>The loop of \<^verbatim>\<open>ReadTypes\<close> over the entries of the directory.\<close>

fun readFiles :: "env \<Rightarrow> string \<Rightarrow> string list \<Rightarrow> aggregation \<Rightarrow> error + aggregation" where
  "readFiles e packagePath [] a = Inr a"
| "readFiles e packagePath (filePath # files) a =
     (if filepath_Ext filePath \<noteq> ''.go'' then readFiles e packagePath files a
      else
        (let fullPath = filepath_Join e packagePath filePath in
         case os_Stat e fullPath of
           Inl err \<Rightarrow> Inl (Bubble (Some err) ''could not stat file'')
         | Inr isDir \<Rightarrow>
             if isDir then readFiles e packagePath files a
             else
               (case parseFile e fullPath of
                  Inl err \<Rightarrow> Inl (Bubble (Some err) ''could not parse file'')
                | Inr astFile \<Rightarrow>
                    readFiles e packagePath files (findStructs e filePath a astFile))))"

text \<open>
  \<^verbatim>\<open>createPackage\<close>: one line of the import block for every used key, in the order of the
  \<^verbatim>\<open>range\<close>, that is declared with a path under the root namespace.
\<close>

definition importEntry :: "string \<times> string \<Rightarrow> string" where
  "importEntry b =
     (case b of
        (key, p) \<Rightarrow>
          if filepath_Base p = key then [CHR 0x09, CHR 0x22] @ p @ [CHR 0x22, CHR 0x0A]
          else [CHR 0x09] @ key @ '' '' @ [CHR 0x22] @ p @ [CHR 0x22, CHR 0x0A])"

fun retained :: "env \<Rightarrow> registry \<Rightarrow> string list \<Rightarrow> (string \<times> string) list" where
  "retained e imps [] = []"
| "retained e imps (key # keys) =
     (case map_of imps key of
        None \<Rightarrow> retained e imps keys
      | Some p \<Rightarrow>
          if \<not> prefix (rootDirName e) p then retained e imps keys
          else (key, p) # retained e imps keys)"

definition createPackage :: "env \<Rightarrow> string \<Rightarrow> registry \<Rightarrow> registry \<Rightarrow> string" where
  "createPackage e convertBuf imps used =
     ''package main'' @ [CHR 0x0A, CHR 0x0A] @ ''import ('' @ [CHR 0x0A]
       @ concat (map importEntry (retained e imps (mapRange e (map fst used))))
       @ '')'' @ [CHR 0x0A, CHR 0x0A] @ ''func main() {'' @ [CHR 0x0A]
       @ convertBuf @ ''}'' @ [CHR 0x0A]"

text \<open>
  \<^verbatim>\<open>ReadTypes\<close>.  When \<^verbatim>\<open>os.Stat\<close> fails with an error that is not "does not exist", the
  function goes on to \<^verbatim>\<open>info.IsDir()\<close> with a nil \<^verbatim>\<open>info\<close>, which panics.
\<close>

definition ReadTypes :: "env \<Rightarrow> string \<Rightarrow> outcome" where
  "ReadTypes e packagePath =
     (if rootDirName e = [] then Returns [] (Some (Bubble None ''RootDirName is empty''))
      else
        (case os_Stat e packagePath of
           Inl err \<Rightarrow>
             if os_IsNotExist e err then Returns [] (Some (Bubble (Some err) ''path does not exist''))
             else Panics
         | Inr isDir \<Rightarrow>
             if \<not> isDir then Returns [] (Some (Bubble None ''path is not a directory''))
             else
               (case os_ReadDir e packagePath of
                  Inl err \<Rightarrow> Returns [] (Some (Bubble (Some err) ''could not read directory''))
                | Inr files \<Rightarrow>
                    (case readFiles e packagePath files ([], [], []) of
                       Inl err \<Rightarrow> Returns [] (Some err)
                     | Inr (convertBuf, imps, used) \<Rightarrow>
                         if length used = 0 then Returns convertBuf None
                         else Returns (createPackage e convertBuf imps used) None))))"

section \<open>An environment for the scenarios\<close>

text \<open>
  The theorems below hold for every environment.  The scenarios are stated for the
  environments in which the libraries answer as the Go libraries do on the inputs of
  the scenario; the environment of this section shows that there are such environments.

  Its tag parser follows \<^verbatim>\<open>structtag.Parse\<close> on the conventional tag format, a sequence
  of \<^verbatim>\<open>key:"value"\<close> pairs separated by spaces: a key is a non-empty run of bytes above
  the space other than the colon, the double quote and the byte 127; a value runs to
  the next double quote that no backslash precedes; the name is the part of the value
  before the first comma and the options are the parts after it.  A value with an
  escape sequence or a newline is not unquoted here and counts as a syntax error.
  A tag without any pair that is not empty yields a nil \<^verbatim>\<open>*Tags\<close>.
\<close>

fun scanQuoted :: "string \<Rightarrow> (string \<times> string) option" where
  "scanQuoted [] = None"
| "scanQuoted (c # cs) =
     (if c = CHR 0x22 then Some ([], cs)
      else if c = CHR 0x5C then
        (case cs of
           [] \<Rightarrow> None
         | d # ds \<Rightarrow> map_option (\<lambda>(v, r). (c # d # v, r)) (scanQuoted ds))
      else map_option (\<lambda>(v, r). (c # v, r)) (scanQuoted cs))"

lemma scanQuoted_length: "scanQuoted s = Some (v, r) \<Longrightarrow> length r < length s"
  by (induction s arbitrary: v r rule: scanQuoted.induct)
     (fastforce split: if_splits list.splits)+

fun splitComma :: "string \<Rightarrow> string list" where
  "splitComma [] = [[]]"
| "splitComma (c # cs) =
     (if c = CHR '','' then [] # splitComma cs
      else (case splitComma cs of l # ls \<Rightarrow> (c # l) # ls | [] \<Rightarrow> [[c]]))"

definition keyByte :: "char \<Rightarrow> bool" where
  "keyByte c =
     ((of_char c :: nat) > 32 \<and> c \<noteq> CHR '':'' \<and> c \<noteq> CHR 0x22 \<and> (of_char c :: nat) \<noteq> 127)"

definition tagOf :: "string \<Rightarrow> string \<Rightarrow> tag" where
  "tagOf key v =
     (case splitComma v of
        n # opts \<Rightarrow> \<lparr>Key = key, Name = n, Options = opts\<rparr>
      | [] \<Rightarrow> \<lparr>Key = key, Name = [], Options = []\<rparr>)"

function parseTags :: "string \<Rightarrow> error + tag list" where
  "parseTags tag =
     (let tag = dropWhile (\<lambda>c. c = CHR '' '') tag in
      if tag = [] then Inr []
      else
        (let key = takeWhile keyByte tag; rest = dropWhile keyByte tag in
         if key = [] then Inl (LibError ''bad syntax for struct tag key'')
         else
           (case rest of
              c # q # after \<Rightarrow>
                if c \<noteq> CHR '':'' then Inl (LibError ''bad syntax for struct tag pair'')
                else if q \<noteq> CHR 0x22 then Inl (LibError ''bad syntax for struct tag value'')
                else
                  (case scanQuoted after of
                     None \<Rightarrow> Inl (LibError ''bad syntax for struct tag value'')
                   | Some (v, r) \<Rightarrow>
                       if CHR 0x5C \<in> set v \<or> CHR 0x0A \<in> set v
                       then Inl (LibError ''bad syntax for struct tag value'')
                       else
                         (case parseTags r of
                            Inl err \<Rightarrow> Inl err
                          | Inr tags \<Rightarrow> Inr (tagOf key v # tags)))
            | _ \<Rightarrow> Inl (LibError ''bad syntax for struct tag pair''))))"
  by pat_completeness auto

termination
proof (relation "measure length", goal_cases)
  case 1
  show ?case by simp
next
  case (2 tag tag' key rest c cs q after x2 v r)
  have "length r < length after"
    using 2 scanQuoted_length [of after v r] by simp
  moreover have "rest = c # q # after"
    using 2 by simp
  then have "length after < length rest"
    by simp
  moreover have "length rest \<le> length tag'"
    using 2 by (simp add: length_dropWhile_le)
  moreover have "length tag' \<le> length tag"
    using 2 by (simp add: length_dropWhile_le)
  ultimately have "length r < length tag"
    by linarith
  then show ?case by simp
qed

definition structtagModel :: "string \<Rightarrow> error + tag list option" where
  "structtagModel tag =
     (case parseTags tag of
        Inl err \<Rightarrow> Inl err
      | Inr tags \<Rightarrow> if tag \<noteq> [] \<and> tags = [] then Inr None else Inr (Some tags))"

text \<open>
  The environment: the root namespace \<^verbatim>\<open>app\<close>, a parser that accepts nothing, a file
  system without files; the scenarios put their texts, trees and files in.
\<close>

definition noSuchFile :: error where
  "noSuchFile = LibError ''no such file or directory''"

definition syntaxError :: error where
  "syntaxError = LibError ''syntax error''"

definition baseEnv :: env where
  "baseEnv =
     \<lparr>rootDirName = ''app'',
      structtag_Parse = structtagModel,
      unicode_L = (\<lambda>r. False),
      unicode_N = (\<lambda>r. False),
      fmt_expr = (\<lambda>x. []),
      TrimFunc_IsSpace = (\<lambda>s. s),
      TrimRightFunc_IsSpace = (\<lambda>s. s),
      parser_ParseExprFrom = (\<lambda>s. Inl syntaxError),
      parser_ParseFile = (\<lambda>m s. Inl syntaxError),
      printer_Fprint = (\<lambda>n. []),
      os_Stat = (\<lambda>p. Inl noSuchFile),
      os_IsNotExist = (\<lambda>err. err = noSuchFile),
      os_ReadDir = (\<lambda>p. Inl noSuchFile),
      os_ReadFile = (\<lambda>p. Inl noSuchFile),
      filepath_Join = (\<lambda>dir f. dir @ ''/'' @ f),
      mapRange = (\<lambda>keys. keys)\<rparr>"

text \<open>
  The tree of the unit \<^verbatim>\<open>package main; func main() { ... }\<close> that \<^verbatim>\<open>Convert\<close> wraps a list of
  declarations in, in the order of \<^verbatim>\<open>ast.Walk\<close>: the file with its package name and the
  function declaration; the function declaration with its name, its type (with the
  empty list of parameters) and its body; the body with one declaration statement per
  declaration.  A declaration (\<^verbatim>\<open>ast.GenDecl\<close>) has the comments of its documentation (in
  a comment group) and its specifications.
\<close>

definition genDecl :: "string list \<Rightarrow> node list \<Rightarrow> node" where
  "genDecl doc specs =
     OtherNode ((if doc = [] then [] else [OtherNode (map Comment doc)]) @ specs)"

definition declStmt :: "node \<Rightarrow> node" where
  "declStmt d = OtherNode [d]"

definition mainUnit :: "node list \<Rightarrow> node" where
  "mainUnit decls =
     OtherNode
       [IdentNode ''main'',
        OtherNode
          [IdentNode ''main'',
           OtherNode [OtherNode []],
           OtherNode (map declStmt decls)]]"

definition withSource :: "string \<Rightarrow> node \<Rightarrow> env \<Rightarrow> env" where
  "withSource src parsed e =
     e\<lparr>parser_ParseFile :=
         (\<lambda>m s. if m = ParseComments \<and> s = wrapper src then Inr parsed
                 else parser_ParseFile e m s)\<rparr>"

section \<open>What translation leaves of the tree\<close>





section \<open>Scenario data\<close>

definition ageField :: field where
  "ageField =
     Field [Some ''Age''] (StarExpr (Ident ''int'')) (Some ''`json:\"age,omitempty\"`'')"


definition nameField :: field where
  "nameField = Field [Some ''Name''] (Ident ''string'') (Some ''`json:\"name\"`'')"

text \<open>A field whose name starts with the two bytes of an upper-case E with an acute accent.\<close>

definition accentField :: field where
  "accentField = Field [Some (CHR 0xC3 # CHR 0x89 # ''cole'')] (Ident ''string'') None"

definition plainField :: "string \<Rightarrow> field" where
  "plainField n = Field [Some n] (Ident ''int'') None"

text \<open>The source texts of the scenarios and the trees the parser builds for them.\<close>

definition userSrc :: string where
  "userSrc =
     ''type User struct { Name string `json:\"name\"`; Age *int `json:\"age,omitempty\"` }''"

definition userUnit :: node where
  "userUnit = mainUnit [genDecl [] [TypeSpec ''User'' (StructType [nameField, ageField])]]"


definition commentedSrc :: string where
  "commentedSrc = ''// c\<newline>type A int\<newline>type B int''"

definition commentedUnit :: node where
  "commentedUnit =
     mainUnit [genDecl [''// c''] [TypeSpec ''A'' (Ident ''int'')],
               genDecl [] [TypeSpec ''B'' (Ident ''int'')]]"

definition badTagSrc :: string where
  "badTagSrc = ''type T struct { A int; B int `json`; C int }''"

definition badTagUnit :: node where
  "badTagUnit =
     mainUnit [genDecl [] [TypeSpec ''T'' (StructType
       [Field [Some ''A''] (Ident ''int'') None,
        Field [Some ''B''] (Ident ''int'') (Some ''`json`''),
        Field [Some ''C''] (Ident ''int'') None])]]"

definition funcFieldSrc :: string where
  "funcFieldSrc = ''type T struct { F func() }''"

definition funcFieldUnit :: node where
  "funcFieldUnit =
     mainUnit [genDecl [] [TypeSpec ''T'' (StructType
       [Field [Some ''F''] (OtherExpr ''*ast.FuncType'') None])]]"



text \<open>A file system in which \<^verbatim>\<open>os.Stat\<close> fails for lack of permission.\<close>

definition deniedEnv :: env where
  "deniedEnv = baseEnv\<lparr>os_Stat := (\<lambda>p. Inl (LibError ''permission denied''))\<rparr>"

section \<open>The claims' own words\<close>




section \<open>Field rules: theorems\<close>

lemma writeFields_append_skip:
  assumes "writeField e f depth = ([], f, Continue)"
  shows "fst (writeFields e (xs @ f # ys) depth) = fst (writeFields e (xs @ ys) depth)
         \<and> snd (snd (writeFields e (xs @ f # ys) depth))
             = snd (snd (writeFields e (xs @ ys) depth))"
proof (induction xs)
  case Nil
  show ?case using assms by (simp split: prod.splits)
next
  case (Cons x xs)
  then show ?case
    by (cases "writeField e x depth"; cases "writeFields e (xs @ f # ys) depth";
        cases "writeFields e (xs @ ys) depth")
       (auto split: flow.splits)
qed

text \<open>
  C10.  A field whose name starts with a byte that is not in the range from \<^verbatim>\<open>A\<close> to \<^verbatim>\<open>Z\<close>
  is skipped: the loop body writes nothing, leaves the field as it is and goes on, and
  the text and the result of \<^verbatim>\<open>writeFields\<close> for a struct with the field are those for
  the struct without it, wherever the field stands.  The first byte of a name that
  starts with a non-ASCII upper-case letter is above \<^verbatim>\<open>Z\<close>, so such a field is skipped
  too.
\<close>

theorem unexported_field_skipped:
  assumes "fieldNameOf f = c # cs"
    and "(of_char c :: nat) < of_char (CHR ''A'') \<or> of_char (CHR ''Z'') < (of_char c :: nat)"
  shows "writeField e f depth = ([], f, Continue)
         \<and> fst (writeFields e (xs @ f # ys) depth) = fst (writeFields e (xs @ ys) depth)
         \<and> snd (snd (writeFields e (xs @ f # ys) depth))
             = snd (snd (writeFields e (xs @ ys) depth))"
proof -
  have "unexported (fieldNameOf f)"
    using assms by (auto simp: unexported_def)
  then have skip: "writeField e f depth = ([], f, Continue)"
    by simp
  then show ?thesis
    using writeFields_append_skip [OF skip] by simp
qed

theorem unexported_field_skipped_witness:
  "fieldNameOf accentField = CHR 0xC3 # CHR 0x89 # ''cole''
   \<and> of_char (CHR ''Z'') < (of_char (CHR 0xC3) :: nat)
   \<and> writeField baseEnv accentField 0 = ([], accentField, Continue)
   \<and> fst (writeFields baseEnv ([plainField ''A''] @ accentField # [plainField ''B'']) 0)
       = ''  A: number;\<newline>  B: number;\<newline>''"
proof -
  have n: "fieldNameOf accentField = CHR 0xC3 # CHR 0x89 # ''cole''"
    by (simp add: accentField_def fieldNameOf_def)
  have b: "of_char (CHR ''Z'') < (of_char (CHR 0xC3) :: nat)"
    by simp
  have d: "(of_char (CHR 0xC3) :: nat) < of_char (CHR ''A'')
             \<or> of_char (CHR ''Z'') < (of_char (CHR 0xC3) :: nat)"
    by simp
  have r: "fst (writeFields baseEnv ([plainField ''A''] @ [plainField ''B'']) 0)
             = ''  A: number;\<newline>  B: number;\<newline>''"
    by code_simp
  note th = unexported_field_skipped
    [OF n d, of baseEnv 0 "[plainField ''A'']" "[plainField ''B'']"]
  show ?thesis
  proof (intro conjI)
    show "fieldNameOf accentField = CHR 0xC3 # CHR 0x89 # ''cole''"
      by (rule n)
    show "of_char (CHR ''Z'') < (of_char (CHR 0xC3) :: nat)"
      by (rule b)
    show "writeField baseEnv accentField 0 = ([], accentField, Continue)"
      by (rule th [THEN conjunct1])
    show "fst (writeFields baseEnv ([plainField ''A''] @ accentField # [plainField ''B'']) 0)
            = ''  A: number;\<newline>  B: number;\<newline>''"
      by (rule trans [OF th [THEN conjunct2, THEN conjunct1] r])
  qed
qed

text \<open>
  C3.  A field whose declared type is a pointer to \<open>t\<close> and that is emitted (its name is
  exported, its tag parses and does not name \<^verbatim>\<open>-\<close>, and the translation of \<open>t\<close> does not
  panic) is emitted as one line: the indentation, the name (from the tag, or the field
  name; in single quotes when it is not a valid name), the marker \<^verbatim>\<open>?\<close>, a colon, the text
  that \<^verbatim>\<open>writeType\<close> writes for the pointee \<open>t\<close>, and a semicolon.  This holds whatever the
  tag says about \<^verbatim>\<open>omitempty\<close>, and the line is not the one with \<^verbatim>\<open> | undefined\<close> added
  after the text of \<open>t\<close>.  The line is what \<^verbatim>\<open>writeFields\<close> writes first for a list of fields
  that starts with the field.
\<close>

theorem pointer_field_line:
  assumes "Type f = StarExpr t"
    and "\<not> unexported (fieldNameOf f)"
    and "readTag e f = TagName tagName omitempty"
    and "writeType e t depth False = (s, t', Return r)"
  shows "writeField e f depth =
           (indent (depth + 1) @ quoteName e (if tagName = [] then fieldNameOf f else tagName)
              @ ''?: '' @ s @ '';\<newline>'',
            Field (Names f) t' (Tag f), Continue)
         \<and> fst (writeField e f depth) \<noteq>
             indent (depth + 1) @ quoteName e (if tagName = [] then fieldNameOf f else tagName)
               @ ''?: '' @ s @ '' | undefined;\<newline>''
         \<and> fst (writeFields e (f # fs) depth) =
             indent (depth + 1) @ quoteName e (if tagName = [] then fieldNameOf f else tagName)
               @ ''?: '' @ s @ '';\<newline>'' @ fst (writeFields e fs depth)"
proof -
  have w: "writeField e f depth =
             (indent (depth + 1)
                @ quoteName e (if tagName = [] then fieldNameOf f else tagName)
                @ ''?: '' @ s @ '';\<newline>'',
              Field (Names f) t' (Tag f), Continue)"
    using assms by (simp add: unwrapStar_def)
  have l: "fst (writeFields e (f # fs) depth) =
             indent (depth + 1) @ quoteName e (if tagName = [] then fieldNameOf f else tagName)
               @ ''?: '' @ s @ '';\<newline>'' @ fst (writeFields e fs depth)"
    using w by (cases "writeFields e fs depth") (simp del: writeField.simps)
  show ?thesis
    using w l by (simp del: writeField.simps writeFields.simps)
qed

theorem pointer_field_line_witness:
  "Type ageField = StarExpr (Ident ''int'')
   \<and> \<not> unexported (fieldNameOf ageField)
   \<and> readTag baseEnv ageField = TagName ''age'' True
   \<and> writeType baseEnv (Ident ''int'') 0 False = (''number'', Ident ''int'', Return None)
   \<and> writeField baseEnv ageField 0
       = (''  age?: number;\<newline>'', Field [Some ''Age''] (Ident ''int'') (Tag ageField), Continue)"
proof -
  have h1: "Type ageField = StarExpr (Ident ''int'')"
    by (simp add: ageField_def)
  have h2: "\<not> unexported (fieldNameOf ageField)"
    by code_simp
  have h3: "readTag baseEnv ageField = TagName ''age'' True"
    by code_simp
  have h4: "writeType baseEnv (Ident ''int'') 0 False = (''number'', Ident ''int'', Return None)"
    by code_simp
  have q: "indent (0 + 1) @ quoteName baseEnv ''age'' = ''  age''"
    by code_simp
  have n: "Names ageField = [Some ''Age'']"
    by (simp add: ageField_def)
  note th = pointer_field_line [OF h1 h2 h3 h4, THEN conjunct1]
  have w: "writeField baseEnv ageField 0
             = (''  age?: number;\<newline>'', Field [Some ''Age''] (Ident ''int'') (Tag ageField),
                Continue)"
    using th q n by (simp del: writeField.simps)
  show ?thesis
    using h1 h2 h3 h4 w by (simp del: writeField.simps writeType.simps)
qed

section \<open>The tree after translation: theorems\<close>












section \<open>Errors inside a struct\<close>

lemma struct_never_reports:
  "snd (snd (writeType e (StructType fs) depth p)) = Return None
   \<or> snd (snd (writeType e (StructType fs) depth p)) = Panic"
  by (cases "writeFields e fs (depth + 1)") (auto split: ret.splits)

lemma struct_decl_keeps_builderErr:
  assumes "visit e w (TypeSpec n (StructType fs)) = Some (w', b)"
  shows "builderErr w' = builderErr w"
proof -
  obtain s t' r where wt: "writeType e (StructType fs) (- 1) False = (s, t', r)"
    by (cases "writeType e (StructType fs) (- 1) False")
  have "r = Return None \<or> r = Panic"
    using struct_never_reports [of e fs "- 1" False] wt by simp
  then show ?thesis
    using assms wt by (auto simp: Let_def simp del: writeType.simps)
qed

text \<open>
  C1 fails on the code.  \<^verbatim>\<open>writeFields\<close> returns the error of a tag that does not parse,
  and \<^verbatim>\<open>writeType\<close> returns the error of a type it has no case for, but the struct case of
  \<^verbatim>\<open>writeType\<close> drops the result of \<^verbatim>\<open>writeFields\<close> and \<^verbatim>\<open>writeFields\<close> drops the result of
  \<^verbatim>\<open>writeType\<close>.  For the struct whose second field has the tag \<^verbatim>\<open>`json`\<close> (no colon: a
  syntax error of the tag), \<^verbatim>\<open>Convert\<close> returns the text up to the field before it and a
  nil error; for the struct with a field of a function type it returns a field line
  without a type and a nil error.
\<close>

theorem partial_output_without_error:
  "structtag_Parse baseEnv ''json'' = Inl (LibError ''bad syntax for struct tag pair'')
   \<and> Convert (withSource badTagSrc badTagUnit baseEnv) badTagSrc
       = Returns ''export type T = {\<newline>  A: number;\<newline>};'' None
   \<and> Convert (withSource funcFieldSrc funcFieldUnit baseEnv) funcFieldSrc
       = Returns ''export type T = {\<newline>  F: ;\<newline>};'' None"
  by code_simp

section \<open>Scenarios of the translation entry point\<close>

lemma valid_name: "validJSName e ''name''"
  by (simp add: validJSName_def matchLine_def pL_def pN_def decodeRune_def)

lemma valid_age: "validJSName e ''age''"
  by (simp add: validJSName_def matchLine_def pL_def pN_def decodeRune_def)

lemma trim_userSrc: "TrimSpace e userSrc = userSrc"
  by (simp add: TrimSpace_def asciiSpace_def userSrc_def)

lemma user_name_line:
  assumes "structtag_Parse e ''json:\"name\"''
             = Inr (Some [\<lparr>Key = ''json'', Name = ''name'', Options = []\<rparr>])"
  shows "writeField e nameField 0 = (''  name: string;\<newline>'', nameField, Continue)"
  using assms
  by (simp add: nameField_def fieldNameOf_def unexported_def readTag_def tags_Get_def
      HasOption_def quoteName_def valid_name unwrapStar_def indent_def tsIndent_def
      convertType_def)

lemma user_age_line:
  assumes "structtag_Parse e ''json:\"age,omitempty\"''
             = Inr (Some [\<lparr>Key = ''json'', Name = ''age'', Options = [''omitempty'']\<rparr>])"
  shows "writeField e ageField 0
           = (''  age?: number;\<newline>'', Field [Some ''Age''] (Ident ''int'') (Tag ageField),
              Continue)"
  using assms
  by (simp add: ageField_def fieldNameOf_def unexported_def readTag_def tags_Get_def
      HasOption_def quoteName_def valid_age unwrapStar_def indent_def tsIndent_def
      convertType_def)

text \<open>
  C2.  In every environment with a root namespace in which the parser rejects the text
  of the \<^verbatim>\<open>User\<close> declaration as an expression and as a file and reads it, wrapped, as the
  declaration of the struct with the two fields, and in which the tag parser reads the
  two tags as the name \<^verbatim>\<open>name\<close> and the name \<^verbatim>\<open>age\<close> with the option \<^verbatim>\<open>omitempty\<close>,
  \<^verbatim>\<open>Convert\<close> returns exactly the text of the scenario and no error.
\<close>

theorem convert_user_scenario:
  assumes "rootDirName e \<noteq> []"
    and "parser_ParseExprFrom e userSrc = Inl err1"
    and "parser_ParseFile e ParseComments userSrc = Inl err2"
    and "parser_ParseFile e ParseComments (wrapper userSrc) = Inr userUnit"
    and "structtag_Parse e ''json:\"name\"''
           = Inr (Some [\<lparr>Key = ''json'', Name = ''name'', Options = []\<rparr>])"
    and "structtag_Parse e ''json:\"age,omitempty\"''
           = Inr (Some [\<lparr>Key = ''json'', Name = ''age'', Options = [''omitempty'']\<rparr>])"
  shows "Convert e userSrc
           = Returns ''export type User = {\<newline>  name: string;\<newline>  age?: number;\<newline>};'' None"
proof -
  have p: "parseSource e userSrc = Inr userUnit"
    using assms by (simp add: parseSource_def)
  have n: "userSrc \<noteq> []"
    by (simp add: userSrc_def)
  have t: "writeType e (StructType [nameField, ageField]) (- 1) False =
             (''{\<newline>  name: string;\<newline>  age?: number;\<newline>};'',
              StructType [nameField, Field [Some ''Age''] (Ident ''int'') (Tag ageField)],
              Return None)"
    using user_name_line [OF assms(5)] user_age_line [OF assms(6)]
    by (simp add: indent_def del: writeField.simps)
  have i: "Inspect e initWalk userUnit =
             Some \<lparr>ts = ''export type User = {\<newline>  name: string;\<newline>  age?: number;\<newline>};'',
                   name = ''main'', first = False, lastWasComment = False,
                   builderErr = None\<rparr>"
    using t
    by (simp add: userUnit_def mainUnit_def genDecl_def declStmt_def initWalk_def
        tsTypePrefix_def del: writeType.simps)
  show ?thesis
    using assms(1) n p i by (simp add: Convert_def trim_userSrc)
qed

theorem convert_user_scenario_witness:
  "rootDirName (withSource userSrc userUnit baseEnv) \<noteq> []
   \<and> parser_ParseExprFrom (withSource userSrc userUnit baseEnv) userSrc = Inl syntaxError
   \<and> parser_ParseFile (withSource userSrc userUnit baseEnv) ParseComments userSrc
       = Inl syntaxError
   \<and> parser_ParseFile (withSource userSrc userUnit baseEnv) ParseComments (wrapper userSrc)
       = Inr userUnit
   \<and> structtag_Parse (withSource userSrc userUnit baseEnv) ''json:\"name\"''
       = Inr (Some [\<lparr>Key = ''json'', Name = ''name'', Options = []\<rparr>])
   \<and> structtag_Parse (withSource userSrc userUnit baseEnv) ''json:\"age,omitempty\"''
       = Inr (Some [\<lparr>Key = ''json'', Name = ''age'', Options = [''omitempty'']\<rparr>])
   \<and> Convert (withSource userSrc userUnit baseEnv) userSrc
       = Returns ''export type User = {\<newline>  name: string;\<newline>  age?: number;\<newline>};'' None"
proof -
  let ?e = "withSource userSrc userUnit baseEnv"
  have h1: "rootDirName ?e \<noteq> []"
    by (simp add: withSource_def baseEnv_def)
  have h2: "parser_ParseExprFrom ?e userSrc = Inl syntaxError"
    by (simp add: withSource_def baseEnv_def)
  have h3: "parser_ParseFile ?e ParseComments userSrc = Inl syntaxError"
    by (simp add: withSource_def baseEnv_def wrapper_def)
  have h4: "parser_ParseFile ?e ParseComments (wrapper userSrc) = Inr userUnit"
    by (simp add: withSource_def)
  have h5: "structtag_Parse ?e ''json:\"name\"''
              = Inr (Some [\<lparr>Key = ''json'', Name = ''name'', Options = []\<rparr>])"
    by code_simp
  have h6: "structtag_Parse ?e ''json:\"age,omitempty\"''
              = Inr (Some [\<lparr>Key = ''json'', Name = ''age'', Options = [''omitempty'']\<rparr>])"
    by code_simp
  show ?thesis
    using convert_user_scenario [OF h1 h2 h3 h4 h5 h6] h1 h2 h3 h4 h5 h6 by blast
qed




section \<open>Separators\<close>

lemma visit_lastWasComment:
  "visit e w n = Some (w', b) \<Longrightarrow> lastWasComment w \<Longrightarrow> lastWasComment w'"
proof (cases n)
  case (TypeSpec nm t)
  obtain s t' r where wt: "writeType e t (- 1) False = (s, t', r)"
    by (cases "writeType e t (- 1) False")
  assume "visit e w n = Some (w', b)" "lastWasComment w"
  then show ?thesis
    using TypeSpec wt
    by (cases r) (auto simp: Let_def split: if_splits option.splits)
qed auto


lemma lastWasComment_stays:
  "Inspect e w n = Some w' \<Longrightarrow> lastWasComment w \<Longrightarrow> lastWasComment w'"
  "InspectList e w ns = Some w' \<Longrightarrow> lastWasComment w \<Longrightarrow> lastWasComment w'"
proof (induction e w n and e w ns arbitrary: w' and w' rule: Inspect_InspectList.induct)
  case (1 e w cs)
  have "InspectList e w cs = Some w'"
    using "1.prems"(1) by simp
  then show ?case
    using "1.IH" [of "(w, True)" w True w'] "1.prems"(2) by simp
next
  case (3 e w)
  then show ?case by simp
next
  case (4 e w n ns)
  show ?case
  proof (cases "Inspect e w n")
    case None
    then show ?thesis using "4.prems"(1) by simp
  next
    case (Some w1)
    have l: "lastWasComment w1"
      using "4.IH"(1) [OF Some "4.prems"(2)] .
    have "InspectList e w1 ns = Some w'"
      using "4.prems"(1) Some by simp
    then show ?thesis
      using "4.IH"(2) [OF Some _ l] by simp
  qed
qed (auto simp del: visit.simps split: option.splits dest: visit_lastWasComment)

text \<open>
  C6 fails on the code.  \<^verbatim>\<open>lastWasComment\<close> is set by a comment and never reset, so after
  the first comment no declaration is preceded by a separator any more: for a comment
  followed by two declarations, the second declaration follows the first without a
  blank line, and without a newline at all.
\<close>

theorem no_separator_after_comment:
  "Convert (withSource commentedSrc commentedUnit baseEnv) commentedSrc
     = Returns ''// c\<newline>export type A = numberexport type B = number'' None"
  by code_simp

section \<open>Import lines\<close>






section \<open>The aggregation entry point\<close>






lemma ReadTypes_stat_error:
  "rootDirName e \<noteq> [] \<Longrightarrow> os_Stat e p = Inl err \<Longrightarrow> \<not> os_IsNotExist e err
   \<Longrightarrow> ReadTypes e p = Panics"
  by (simp add: ReadTypes_def)

lemma ReadTypes_path_errors:
  assumes "rootDirName e \<noteq> []"
  shows "os_Stat e p = Inl err \<Longrightarrow> os_IsNotExist e err \<Longrightarrow>
           ReadTypes e p = Returns [] (Some (Bubble (Some err) ''path does not exist''))"
    and "os_Stat e p = Inr False \<Longrightarrow>
           ReadTypes e p = Returns [] (Some (Bubble None ''path is not a directory''))"
    and "os_Stat e p = Inr True \<Longrightarrow> os_ReadDir e p = Inl err \<Longrightarrow>
           ReadTypes e p = Returns [] (Some (Bubble (Some err) ''could not read directory''))"
  using assms by (simp_all add: ReadTypes_def)

text \<open>
  C7 fails on the code.  When \<^verbatim>\<open>os.Stat\<close> fails with an error that is not "does not
  exist" (here: permission denied), \<^verbatim>\<open>ReadTypes\<close> does not return: \<^verbatim>\<open>info\<close> is nil and
  \<^verbatim>\<open>info.IsDir()\<close> panics.  For a path that does not exist, that is not a directory or
  that cannot be listed, an error and no text are returned (\<open>ReadTypes_path_errors\<close>).
\<close>

theorem stat_error_panics:
  "rootDirName deniedEnv \<noteq> []
   \<and> os_Stat deniedEnv ''/srv/private/pkg'' = Inl (LibError ''permission denied'')
   \<and> os_IsNotExist deniedEnv (LibError ''permission denied'') = False
   \<and> ReadTypes deniedEnv ''/srv/private/pkg'' = Panics"
  by (simp add: ReadTypes_def deniedEnv_def baseEnv_def noSuchFile_def)

end
